theory Spec2Isabelle
  imports Main "HOL-Library.Word"
begin

section \<open>Python values shared by both services\<close>

text \<open>
  A Python \<open>str\<close> is a sequence of Unicode code points, a \<open>bytes\<close> object a sequence of
  octets. String literals of the source are written \<open>str ''...''\<close>.
\<close>

type_synonym pystr = "nat list"
type_synonym pybytes = "8 word list"

definition str :: "string \<Rightarrow> pystr" where
  "str s = map of_char s"

text \<open>\<open>s.replace(old, new)\<close> for a one-character \<open>old\<close>.\<close>

definition py_replace :: "nat \<Rightarrow> pystr \<Rightarrow> pystr \<Rightarrow> pystr" where
  "py_replace old new s = concat (map (\<lambda>c. if c = old then new else [c]) s)"

text \<open>\<open>str.isspace\<close> on one code point (the Unicode whitespace table of CPython).\<close>

definition py_isspace :: "nat \<Rightarrow> bool" where
  "py_isspace c \<longleftrightarrow>
     (9 \<le> c \<and> c \<le> 13) \<or> (28 \<le> c \<and> c \<le> 32) \<or> c = 133 \<or> c = 160 \<or> c = 5760 \<or>
     (8192 \<le> c \<and> c \<le> 8202) \<or> c = 8232 \<or> c = 8233 \<or> c = 8239 \<or> c = 8287 \<or> c = 12288"

definition py_strip :: "pystr \<Rightarrow> pystr" where
  "py_strip s = rev (dropWhile py_isspace (rev (dropWhile py_isspace s)))"

text \<open>\<open>int.__repr__\<close>: decimal digits, a leading minus sign for negative numbers.\<close>

function str_nat :: "nat \<Rightarrow> pystr" where
  "str_nat n = (if n < 10 then [48 + n] else str_nat (n div 10) @ [48 + n mod 10])"
  by pat_completeness auto
termination
  by (relation "measure id") auto

declare str_nat.simps [simp del]

definition str_int :: "int \<Rightarrow> pystr" where
  "str_int i = (if i < 0 then 45 # str_nat (nat (- i)) else str_nat (nat i))"

text \<open>
  The exceptions the two handlers distinguish. \<open>JSONDecodeError msg doc pos\<close> keeps the
  constructor arguments of \<open>json.JSONDecodeError\<close>; its attributes \<open>lineno\<close> and
  \<open>colno\<close> are computed from them as \<open>__init__\<close> does. The two codec errors carry
  their \<open>str()\<close>. \<open>OtherException m\<close> is any other subclass of \<open>Exception\<close>, with
  \<open>m\<close> its \<open>str()\<close>.
\<close>

datatype exn =
    JSONDecodeError pystr pystr nat
  | HTTPException nat pystr
  | UnicodeDecodeError pystr
  | UnicodeEncodeError pystr
  | OtherException pystr

text \<open>\<open>lineno = doc.count('\n', 0, pos) + 1\<close>\<close>

definition lineno :: "pystr \<Rightarrow> nat \<Rightarrow> int" where
  "lineno doc pos = int (length (filter (\<lambda>c. c = 10) (take pos doc))) + 1"

text \<open>\<open>doc.rfind('\n', 0, pos)\<close>: the last index below \<open>pos\<close> holding a newline, or -1.\<close>

fun rfind_upto :: "nat \<Rightarrow> pystr \<Rightarrow> nat \<Rightarrow> int" where
  "rfind_upto c doc 0 = - 1"
| "rfind_upto c doc (Suc i) =
     (if i < length doc \<and> doc ! i = c then int i else rfind_upto c doc i)"

text \<open>\<open>colno = pos - doc.rfind('\n', 0, pos)\<close>\<close>

definition colno :: "pystr \<Rightarrow> nat \<Rightarrow> int" where
  "colno doc pos = int pos - rfind_upto 10 doc (min pos (length doc))"

text \<open>
  \<open>str(e)\<close>. For \<open>JSONDecodeError\<close> it is the \<open>errmsg\<close> built in \<open>__init__\<close>; for
  \<open>HTTPException\<close> it is \<open>f"{status_code}: {detail}"\<close>.
\<close>

fun exn_str :: "exn \<Rightarrow> pystr" where
  "exn_str (JSONDecodeError msg doc pos) =
     msg @ str '': line '' @ str_int (lineno doc pos) @ str '' column '' @
     str_int (colno doc pos) @ str '' (char '' @ str_nat pos @ str '')''"
| "exn_str (HTTPException status detail) = str_nat status @ str '': '' @ detail"
| "exn_str (UnicodeDecodeError m) = m"
| "exn_str (UnicodeEncodeError m) = m"
| "exn_str (OtherException m) = m"

text \<open>Sequencing of statements that may raise.\<close>

definition ebind :: "exn + 'a \<Rightarrow> ('a \<Rightarrow> exn + 'b) \<Rightarrow> exn + 'b" where
  "ebind m f = (case m of Inl e \<Rightarrow> Inl e | Inr x \<Rightarrow> f x)"


section \<open>The Markdown service\<close>

subsection \<open>UTF-8\<close>

text \<open>
  \<open>content.decode('utf-8')\<close> with the default strict error handler: overlong forms,
  surrogates, values above U+10FFFF and truncated sequences raise \<open>UnicodeDecodeError\<close>
  (the result \<open>None\<close>). The text of that error is taken from the parameter \<open>message\<close>.
\<close>

definition is_cont :: "nat \<Rightarrow> bool" where
  "is_cont b \<longleftrightarrow> 128 \<le> b \<and> b \<le> 191"

fun utf8_dec :: "nat list \<Rightarrow> pystr option" where
  "utf8_dec [] = Some []"
| "utf8_dec (b # bs) =
    (if b < 128 then map_option (Cons b) (utf8_dec bs)
     else if 194 \<le> b \<and> b \<le> 223 then
       (case bs of
          c1 # r \<Rightarrow>
            if is_cont c1
            then map_option (Cons ((b - 192) * 64 + (c1 - 128))) (utf8_dec r)
            else None
        | _ \<Rightarrow> None)
     else if 224 \<le> b \<and> b \<le> 239 then
       (case bs of
          c1 # c2 # r \<Rightarrow>
            if (if b = 224 then 160 \<le> c1 \<and> c1 \<le> 191
                else if b = 237 then 128 \<le> c1 \<and> c1 \<le> 159
                else is_cont c1) \<and> is_cont c2
            then map_option (Cons ((b - 224) * 4096 + (c1 - 128) * 64 + (c2 - 128)))
                   (utf8_dec r)
            else None
        | _ \<Rightarrow> None)
     else if 240 \<le> b \<and> b \<le> 244 then
       (case bs of
          c1 # c2 # c3 # r \<Rightarrow>
            if (if b = 240 then 144 \<le> c1 \<and> c1 \<le> 191
                else if b = 244 then 128 \<le> c1 \<and> c1 \<le> 143
                else is_cont c1) \<and> is_cont c2 \<and> is_cont c3
            then map_option
                   (Cons ((b - 240) * 262144 + (c1 - 128) * 4096 + (c2 - 128) * 64 + (c3 - 128)))
                   (utf8_dec r)
            else None
        | _ \<Rightarrow> None)
     else None)"

definition decode_utf8 :: "(pybytes \<Rightarrow> pystr) \<Rightarrow> pybytes \<Rightarrow> exn + pystr" where
  "decode_utf8 message bs =
                    (case utf8_dec (map unat bs) of
                       None \<Rightarrow> Inl (UnicodeDecodeError (message bs))
                     | Some s \<Rightarrow> Inr s)"

text \<open>
  \<open>s.encode('utf-8')\<close>: a surrogate code point raises \<open>UnicodeEncodeError\<close>. A Python
  \<open>str\<close> holds no code point above U+10FFFF; the model gives those the same error.
\<close>

definition utf8_enc1 :: "nat \<Rightarrow> nat list option" where
  "utf8_enc1 c =
    (if c < 128 then Some [c]
     else if c < 2048 then Some [192 + c div 64, 128 + c mod 64]
     else if 55296 \<le> c \<and> c \<le> 57343 then None
     else if c < 65536 then Some [224 + c div 4096, 128 + (c div 64) mod 64, 128 + c mod 64]
     else if c < 1114112 then
       Some [240 + c div 262144, 128 + (c div 4096) mod 64, 128 + (c div 64) mod 64,
             128 + c mod 64]
     else None)"

fun utf8_enc :: "pystr \<Rightarrow> nat list option" where
  "utf8_enc [] = Some []"
| "utf8_enc (c # cs) =
    (case utf8_enc1 c of
       None \<Rightarrow> None
     | Some bs \<Rightarrow> map_option (\<lambda>r. bs @ r) (utf8_enc cs))"

definition encode_utf8 :: "(pystr \<Rightarrow> pystr) \<Rightarrow> pystr \<Rightarrow> exn + pybytes" where
  "encode_utf8 message s =
                   (case utf8_enc s of
                      None \<Rightarrow> Inl (UnicodeEncodeError (message s))
                    | Some bs \<Rightarrow> Inr (map of_nat bs))"

subsection \<open>\<open>os.path.splitext\<close>\<close>

text \<open>\<open>p.rfind(c)\<close>: the last index holding \<open>c\<close>, or -1.\<close>

definition rfind :: "nat \<Rightarrow> pystr \<Rightarrow> int" where
  "rfind c p = rfind_upto c p (length p)"

text \<open>
  The loop of \<open>genericpath._splitext\<close> that skips leading dots of the file name: it
  answers whether some character in \<open>p[filenameIndex:dotIndex]\<close> is not a dot.
\<close>

function skip_leading_dots :: "pystr \<Rightarrow> nat \<Rightarrow> nat \<Rightarrow> bool" where
  "skip_leading_dots p filenameIndex dotIndex =
     (if filenameIndex < dotIndex
      then (if take 1 (drop filenameIndex p) \<noteq> [46] then True
            else skip_leading_dots p (Suc filenameIndex) dotIndex)
      else False)"
  by pat_completeness auto
termination
  by (relation "measure (\<lambda>(p, i, d). d - i)") auto

declare skip_leading_dots.simps [simp del]

definition splitext :: "pystr \<Rightarrow> pystr \<times> pystr" where
  "splitext p =
    (let sepIndex = rfind 47 p; dotIndex = rfind 46 p in
     if dotIndex > sepIndex \<and> skip_leading_dots p (nat (sepIndex + 1)) (nat dotIndex)
     then (take (nat dotIndex) p, drop (nat dotIndex) p)
     else (p, []))"

subsection \<open>The converter and the two endpoints\<close>

text \<open>
  The external collaborators of the service, taken as parameters:
  \<^item> \<open>markdown2_markdown\<close>: \<open>markdown2.markdown(md_content, extras=[...])\<close>;
  \<^item> \<open>strftime_now\<close>: \<open>datetime.now().strftime("%Y-%m-%d %H:%M:%S")\<close>;
  \<^item> \<open>write_pdf\<close>: \<open>HTML(string=html_content).write_pdf\<close>, read back as bytes;
  \<^item> \<open>template_literals\<close>: the four literal runs of \<open>HTML_TEMPLATE\<close> around its
    replacement fields \<open>{title}\<close>, \<open>{content}\<close> and \<open>{timestamp}\<close>;
  \<^item> \<open>decode_error_str\<close>, \<open>encode_error_str\<close>: the text of the codec's
    \<open>UnicodeDecodeError\<close> for given bytes and of its \<open>UnicodeEncodeError\<close> for a given
    string.
\<close>

record collaborators =
  markdown2_markdown :: "pystr \<Rightarrow> exn + pystr"
  strftime_now :: pystr
  write_pdf :: "pystr \<Rightarrow> exn + pybytes"
  template_literals :: "pystr \<times> pystr \<times> pystr \<times> pystr"
  decode_error_str :: "pybytes \<Rightarrow> pystr"
  encode_error_str :: "pystr \<Rightarrow> pystr"

record StreamingResponse =
  content :: pybytes
  media_type :: pystr
  content_disposition :: pystr

definition HTML_TEMPLATE_format :: "collaborators \<Rightarrow> pystr \<Rightarrow> pystr \<Rightarrow> pystr \<Rightarrow> pystr" where
  "HTML_TEMPLATE_format env title content_html timestamp =
    (case template_literals env of
       (t0, t1, t2, t3) \<Rightarrow> t0 @ title @ t1 @ content_html @ t2 @ timestamp @ t3)"

definition convert_to_html :: "collaborators \<Rightarrow> pystr \<Rightarrow> pystr \<Rightarrow> exn + pystr" where
  "convert_to_html env md_content title =
    ebind (markdown2_markdown env md_content) (\<lambda>html_content.
      Inr (HTML_TEMPLATE_format env title html_content (strftime_now env)))"

definition convert_to_pdf :: "collaborators \<Rightarrow> pystr \<Rightarrow> exn + pybytes" where
  "convert_to_pdf env html_content = write_pdf env html_content"

text \<open>
  The statements both endpoints run once content and title are known: convert to HTML,
  then answer with the HTML bytes or with the PDF made from them.
\<close>

definition convert_and_stream ::
  "collaborators \<Rightarrow> pystr \<Rightarrow> pystr \<Rightarrow> pystr \<Rightarrow> exn + StreamingResponse" where
  "convert_and_stream env md_content title output_format =
    ebind (convert_to_html env md_content title) (\<lambda>html_content.
      if output_format = str ''html'' then
        ebind (encode_utf8 (encode_error_str env) html_content) (\<lambda>body.
          Inr \<lparr>content = body, media_type = str ''text/html'',
               content_disposition =
                 str ''attachment; filename='' @ py_replace 32 [95] title @ str ''.html''\<rparr>)
      else
        ebind (convert_to_pdf env html_content) (\<lambda>pdf_content.
          Inr \<lparr>content = pdf_content, media_type = str ''application/pdf'',
               content_disposition =
                 str ''attachment; filename='' @ py_replace 32 [95] title @ str ''.pdf''\<rparr>))"

definition bad_format_detail :: pystr where
  "bad_format_detail = str ''output_format must be 'html' or 'pdf'' @ [39]"

definition convert_paste ::
  "collaborators \<Rightarrow> pystr \<Rightarrow> pystr \<Rightarrow> pystr \<Rightarrow> exn + StreamingResponse" where
  "convert_paste env content_md output_format title =
    (if py_strip content_md = [] then
       Inl (HTTPException 400 (str ''Content cannot be empty''))
     else if output_format \<notin> set [str ''html'', str ''pdf''] then
       Inl (HTTPException 400 bad_format_detail)
     else
       (case convert_and_stream env content_md title output_format of
          Inr response \<Rightarrow> Inr response
        | Inl e \<Rightarrow> Inl (HTTPException 500 (str ''Conversion error: '' @ exn_str e))))"

text \<open>
  The body of the \<open>try\<close> statement of \<open>convert_upload\<close>. The \<open>raise\<close> for an empty file
  is one of its statements, so the handlers below the \<open>try\<close> see it.
\<close>

definition convert_upload_try ::
  "collaborators \<Rightarrow> pystr option \<Rightarrow> pybytes \<Rightarrow> pystr \<Rightarrow> exn + StreamingResponse" where
  "convert_upload_try env filename file_bytes output_format =
    ebind (decode_utf8 (decode_error_str env) file_bytes) (\<lambda>md_content.
      if py_strip md_content = [] then
        Inl (HTTPException 400 (str ''File is empty''))
      else
        (let title = (case filename of
                        None \<Rightarrow> str ''Document''
                      | Some f \<Rightarrow> if f = [] then str ''Document'' else fst (splitext f))
         in convert_and_stream env md_content title output_format))"

definition convert_upload ::
  "collaborators \<Rightarrow> pystr option \<Rightarrow> pybytes \<Rightarrow> pystr \<Rightarrow> exn + StreamingResponse" where
  "convert_upload env filename file_bytes output_format =
    (if output_format \<notin> set [str ''html'', str ''pdf''] then
       Inl (HTTPException 400 bad_format_detail)
     else
       (case convert_upload_try env filename file_bytes output_format of
          Inr response \<Rightarrow> Inr response
        | Inl (UnicodeDecodeError m) \<Rightarrow>
            Inl (HTTPException 400
                  (str ''File must be a valid text file with UTF-8 encoding''))
        | Inl e \<Rightarrow> Inl (HTTPException 500 (str ''Conversion error: '' @ exn_str e))))"


section \<open>The JSON service\<close>

subsection \<open>The request handler\<close>

record JSONInput =
  "text" :: pystr
  indent :: "int option"

record JSONResponse =
  success :: bool
  formatted :: "pystr option"
  error :: "pystr option"
  error_line :: "int option"
  error_column :: "int option"

text \<open>
  The body of the \<open>try\<close> statement of \<open>format_json\<close>, over the two library calls
  \<open>json.loads\<close> and \<open>json.dumps(parsed, indent=..., ensure_ascii=False)\<close>.
\<close>

definition format_json_try ::
  "(pystr \<Rightarrow> exn + 'v) \<Rightarrow> ('v \<Rightarrow> int option \<Rightarrow> exn + pystr) \<Rightarrow> JSONInput
     \<Rightarrow> exn + JSONResponse" where
  "format_json_try loads dumps data =
    (let text' = py_replace 39 [34] (text data) in
     ebind (loads text') (\<lambda>parsed.
     ebind (dumps parsed (indent data)) (\<lambda>formatted_text.
       Inr \<lparr>success = True, formatted = Some formatted_text, error = None,
            error_line = None, error_column = None\<rparr>)))"

text \<open>
  The whole handler: the \<open>try\<close> body, then the two \<open>except\<close> clauses in the order
  of the source. The result is a sum so that an exception leaving the handler would
  be visible as \<open>Inl\<close>.
\<close>

definition format_json ::
  "(pystr \<Rightarrow> exn + 'v) \<Rightarrow> ('v \<Rightarrow> int option \<Rightarrow> exn + pystr) \<Rightarrow> JSONInput
     \<Rightarrow> exn + JSONResponse" where
  "format_json loads dumps data =
    (case format_json_try loads dumps data of
       Inr response \<Rightarrow> Inr response
     | Inl (JSONDecodeError msg doc pos) \<Rightarrow>
         Inr \<lparr>success = False, formatted = None,
              error = Some (str ''JSON Error: '' @ msg),
              error_line = Some (lineno doc pos), error_column = Some (colno doc pos)\<rparr>
     | Inl e \<Rightarrow>
         Inr \<lparr>success = False, formatted = None,
              error = Some (str ''Error: '' @ exn_str e),
              error_line = None, error_column = None\<rparr>)"

subsection \<open>Values of the \<open>json\<close> module\<close>

text \<open>
  The Python values \<open>json.loads\<close> builds. A \<open>dict\<close> is the list of its items in
  insertion order, with distinct keys. A \<open>float\<close> is finite, infinite or not a number;
  the finite ones are values of a type \<open>'f\<close> that is not fixed here.
\<close>

datatype 'f pyfloat = Finite 'f | PosInf | NegInf | NaN

datatype 'f json =
    JNull
  | JBool bool
  | JInt int
  | JFloat "'f pyfloat"
  | JStr pystr
  | JList "'f json list"
  | JDict "(pystr \<times> 'f json) list"

text \<open>
  What the module takes from the interpreter, as parameters:
  \<^item> \<open>float_of_str\<close>: \<open>float(s)\<close> on a matched number literal;
  \<^item> \<open>float_repr\<close>: \<open>float.__repr__\<close> on a finite float;
  \<^item> \<open>repr_char\<close>: \<open>repr\<close> of a one-character string (it depends on the Unicode
    database), used in two error messages.
\<close>

record 'f interpreter =
  float_of_str :: "pystr \<Rightarrow> 'f pyfloat"
  float_repr :: "'f \<Rightarrow> pystr"
  repr_char :: "nat \<Rightarrow> pystr"

text \<open>\<open>d[k] = v\<close> on the item list, and \<open>dict(pairs)\<close>.\<close>

fun dict_setitem :: "(pystr \<times> 'v) list \<Rightarrow> pystr \<Rightarrow> 'v \<Rightarrow> (pystr \<times> 'v) list" where
  "dict_setitem [] k v = [(k, v)]"
| "dict_setitem ((k', v') # d) k v =
     (if k' = k then (k', v) # d else (k', v') # dict_setitem d k v)"

definition py_dict :: "(pystr \<times> 'v) list \<Rightarrow> (pystr \<times> 'v) list" where
  "py_dict pairs = foldl (\<lambda>d (k, v). dict_setitem d k v) [] pairs"

subsection \<open>\<open>json.decoder\<close> and \<open>json.scanner\<close>\<close>

text \<open>
  The decoder walks the document by index. Here a position is the suffix of the document
  that starts there, and a \<open>JSONDecodeError\<close> in the making is the message with the
  number of characters from the failure position to the end (\<open>len(s) - pos\<close>).
  Code points: \<open>"\<close> 34, \<open>\\<close> 92, \<open>/\<close> 47, \<open>[\<close> 91, \<open>]\<close> 93, \<open>{\<close> 123, \<open>}\<close> 125,
  \<open>:\<close> 58, \<open>,\<close> 44, \<open>-\<close> 45, \<open>+\<close> 43, \<open>.\<close> 46, \<open>0\<close> 48, \<open>9\<close> 57, \<open>e\<close> 101, \<open>E\<close> 69,
  \<open>u\<close> 117, space 32, tab 9, line feed 10, carriage return 13.
\<close>

type_synonym decode_error = "pystr \<times> nat"

text \<open>\<open>WHITESPACE = re.compile(r'[ \t\n\r]*')\<close> and \<open>WHITESPACE_STR\<close>.\<close>

definition is_ws :: "nat \<Rightarrow> bool" where
  "is_ws c \<longleftrightarrow> c = 32 \<or> c = 9 \<or> c = 10 \<or> c = 13"

definition skip_ws :: "pystr \<Rightarrow> pystr" where
  "skip_ws cs = dropWhile is_ws cs"

text \<open>
  \<open>nextchar in _ws\<close> for \<open>nextchar = s[end:end + 1]\<close>: true also for the empty slice at
  the end of the document.
\<close>

definition nextchar_in_ws :: "pystr \<Rightarrow> bool" where
  "nextchar_in_ws cs = (case cs of [] \<Rightarrow> True | c # _ \<Rightarrow> is_ws c)"

text \<open>
  The idiom \<open>if s[end] in _ws: end += 1; if s[end] in _ws: end = _w(s, end + 1).end()\<close>
  inside \<open>try ... except IndexError: pass\<close>.
\<close>

definition skip_ws_fast :: "pystr \<Rightarrow> pystr" where
  "skip_ws_fast cs =
     (case cs of
        [] \<Rightarrow> []
      | c # cs1 \<Rightarrow>
          if is_ws c then
            (case cs1 of
               [] \<Rightarrow> []
             | c1 # cs2 \<Rightarrow> if is_ws c1 then skip_ws cs2 else cs1)
          else cs)"

definition BACKSLASH :: "nat \<Rightarrow> nat option" where
  "BACKSLASH esc =
     (if esc = 34 then Some 34 else if esc = 92 then Some 92 else if esc = 47 then Some 47
      else if esc = 98 then Some 8 else if esc = 102 then Some 12
      else if esc = 110 then Some 10 else if esc = 114 then Some 13
      else if esc = 116 then Some 9 else None)"

definition hex_digit :: "nat \<Rightarrow> nat option" where
  "hex_digit c =
     (if 48 \<le> c \<and> c \<le> 57 then Some (c - 48)
      else if 97 \<le> c \<and> c \<le> 102 then Some (c - 87)
      else if 65 \<le> c \<and> c \<le> 70 then Some (c - 55)
      else None)"

text \<open>
  \<open>_decode_uXXXX\<close> on the four characters after the \<open>u\<close>: four hexadecimal digits,
  as the C accelerator reads them.
\<close>

definition decode_uXXXX :: "pystr \<Rightarrow> nat option" where
  "decode_uXXXX cs =
     (case map hex_digit (take 4 cs) of
        [Some a, Some b, Some c, Some d] \<Rightarrow> Some (((a * 16 + b) * 16 + c) * 16 + d)
      | _ \<Rightarrow> None)"

definition append_char :: "nat \<Rightarrow> decode_error + pystr \<times> pystr \<Rightarrow> decode_error + pystr \<times> pystr" where
  "append_char ch r = (case r of Inl e \<Rightarrow> Inl e | Inr (s, rest) \<Rightarrow> Inr (ch # s, rest))"

text \<open>
  \<open>scanstring(s, end, strict=True)\<close>; \<open>begin\<close> is \<open>len(s) - (end - 1)\<close>, the characters
  from the opening quote to the end of the document; the list starts right after that
  quote.
\<close>

fun scanstring :: "'f interpreter \<Rightarrow> nat \<Rightarrow> pystr \<Rightarrow> decode_error + pystr \<times> pystr" where
  "scanstring py begin [] = Inl (str ''Unterminated string starting at'', begin)"
| "scanstring py begin (c # cs) =
    (if c = 34 then Inr ([], cs)
     else if c = 92 then
       (case cs of
          [] \<Rightarrow> Inl (str ''Unterminated string starting at'', begin)
        | esc # cs' \<Rightarrow>
            if esc \<noteq> 117 then
              (case BACKSLASH esc of
                 None \<Rightarrow> Inl (str ''Invalid '' @ 92 # str ''escape: '' @ repr_char py esc, length cs)
               | Some ch \<Rightarrow> append_char ch (scanstring py begin cs'))
            else
              (case decode_uXXXX cs' of
                 None \<Rightarrow> Inl ((str ''Invalid '' @ 92 # str ''uXXXX escape''), length cs)
               | Some uni \<Rightarrow>
                   if 55296 \<le> uni \<and> uni \<le> 56319 \<and> take 2 (drop 4 cs') = [92, 117] then
                     (case decode_uXXXX (drop 6 cs') of
                        None \<Rightarrow> Inl ((str ''Invalid '' @ 92 # str ''uXXXX escape''), length (drop 5 cs'))
                      | Some uni2 \<Rightarrow>
                          if 56320 \<le> uni2 \<and> uni2 \<le> 57343 then
                            append_char (65536 + ((uni - 55296) * 1024 + (uni2 - 56320)))
                              (scanstring py begin (drop 10 cs'))
                          else append_char uni (scanstring py begin (drop 4 cs')))
                   else append_char uni (scanstring py begin (drop 4 cs'))))
     else if c \<le> 31 then
       Inl (str ''Invalid control character '' @ repr_char py c @ str '' at'', length cs)
     else append_char c (scanstring py begin cs))"

text \<open>
  \<open>NUMBER_RE.match\<close>, \<open>(-?(?:0|[1-9]\d*))(\.\d+)?([eE][-+]?\d+)?\<close> with the ASCII digits:
  the three groups (an unmatched optional group is the empty string) and the rest.
\<close>

definition is_digit :: "nat \<Rightarrow> bool" where
  "is_digit c \<longleftrightarrow> 48 \<le> c \<and> c \<le> 57"

definition match_integer :: "pystr \<Rightarrow> (pystr \<times> pystr) option" where
  "match_integer cs =
     (let sign = takeWhile (\<lambda>c. c = 45) (take 1 cs); cs1 = drop (length sign) cs in
      case cs1 of
        [] \<Rightarrow> None
      | d # ds \<Rightarrow>
          if d = 48 then Some (sign @ [48], ds)
          else if is_digit d then
            Some (sign @ d # takeWhile is_digit ds, dropWhile is_digit ds)
          else None)"

definition match_frac :: "pystr \<Rightarrow> pystr \<times> pystr" where
  "match_frac cs =
     (case cs of
        c # ds \<Rightarrow>
          if c = 46 \<and> takeWhile is_digit ds \<noteq> []
          then (c # takeWhile is_digit ds, dropWhile is_digit ds)
          else ([], cs)
      | [] \<Rightarrow> ([], cs))"

definition match_exp :: "pystr \<Rightarrow> pystr \<times> pystr" where
  "match_exp cs =
     (case cs of
        c # r \<Rightarrow>
          (let sign = takeWhile (\<lambda>c. c = 45 \<or> c = 43) (take 1 r); ds = drop (length sign) r in
           if (c = 101 \<or> c = 69) \<and> takeWhile is_digit ds \<noteq> []
           then (c # sign @ takeWhile is_digit ds, dropWhile is_digit ds)
           else ([], cs))
      | [] \<Rightarrow> ([], cs))"

definition match_number :: "pystr \<Rightarrow> (pystr \<times> pystr \<times> pystr \<times> pystr) option" where
  "match_number cs =
     (case match_integer cs of
        None \<Rightarrow> None
      | Some (integer, r1) \<Rightarrow>
          (case match_frac r1 of
             (frac, r2) \<Rightarrow>
               (case match_exp r2 of
                  (exp, r3) \<Rightarrow> Some (integer, frac, exp, r3))))"

text \<open>\<open>int(integer)\<close> on a matched integer group.\<close>

definition int_of_str :: "pystr \<Rightarrow> int" where
  "int_of_str s =
     (case s of
        [] \<Rightarrow> 0
      | c # ds \<Rightarrow>
          if c = 45 then - int (foldl (\<lambda>a d. 10 * a + (d - 48)) 0 ds)
          else int (foldl (\<lambda>a d. 10 * a + (d - 48)) 0 s))"

text \<open>The branches of \<open>_scan_once\<close> that read no nested value.\<close>

definition scan_atom :: "'f interpreter \<Rightarrow> pystr \<Rightarrow> decode_error + 'f json \<times> pystr" where
  "scan_atom py cs =
     (if take 4 cs = str ''null'' then Inr (JNull, drop 4 cs)
      else if take 4 cs = str ''true'' then Inr (JBool True, drop 4 cs)
      else if take 5 cs = str ''false'' then Inr (JBool False, drop 5 cs)
      else
        (case match_number cs of
           Some (integer, frac, exp, rest) \<Rightarrow>
             if frac \<noteq> [] \<or> exp \<noteq> []
             then Inr (JFloat (float_of_str py (integer @ frac @ exp)), rest)
             else Inr (JInt (int_of_str integer), rest)
         | None \<Rightarrow>
             if take 3 cs = str ''NaN'' then Inr (JFloat NaN, drop 3 cs)
             else if take 8 cs = str ''Infinity'' then Inr (JFloat PosInf, drop 8 cs)
             else if take 9 cs = str ''-Infinity'' then Inr (JFloat NegInf, drop 9 cs)
             else Inl (str ''Expecting value'', length cs)))"

text \<open>
  \<open>_scan_once\<close> with the loops of \<open>JSONArray\<close> and \<open>JSONObject\<close>. A \<open>StopIteration(idx)\<close>
  of \<open>_scan_once\<close> is turned by each of its callers into
  \<open>JSONDecodeError("Expecting value", s, idx)\<close>; the model raises that error at once.
  \<open>JSONArray_loop\<close> is the \<open>while True\<close> of \<open>JSONArray\<close> with the list \<open>values\<close> so far,
  \<open>JSONObject_loop\<close> the one of \<open>JSONObject\<close> with \<open>pairs\<close>, entered right after the
  opening quote of a key.
\<close>

function scan_once :: "'f interpreter \<Rightarrow> pystr \<Rightarrow> decode_error + 'f json \<times> pystr"
  and JSONArray_loop ::
    "'f interpreter \<Rightarrow> 'f json list \<Rightarrow> pystr \<Rightarrow> decode_error + 'f json \<times> pystr"
  and JSONObject_loop ::
    "'f interpreter \<Rightarrow> (pystr \<times> 'f json) list \<Rightarrow> pystr \<Rightarrow> decode_error + 'f json \<times> pystr"
where
  "scan_once py cs =
    (case cs of
       [] \<Rightarrow> Inl (str ''Expecting value'', 0)
     | nextchar # cs1 \<Rightarrow>
         if nextchar = 34 then
           (case scanstring py (length cs) cs1 of
              Inl e \<Rightarrow> Inl e
            | Inr (s, rest) \<Rightarrow> Inr (JStr s, rest))
         else if nextchar = 123 then
           (let cs2 = (if take 1 cs1 \<noteq> [34] \<and> nextchar_in_ws cs1 then skip_ws cs1 else cs1) in
            if take 1 cs2 = [125] then Inr (JDict [], drop 1 cs2)
            else if take 1 cs2 \<noteq> [34] then
              Inl (str ''Expecting property name enclosed in double quotes'', length cs2)
            else JSONObject_loop py [] (drop 1 cs2))
         else if nextchar = 91 then
           (let cs2 = (if nextchar_in_ws cs1 then skip_ws (drop 1 cs1) else cs1) in
            if take 1 cs2 = [93] then Inr (JList [], drop 1 cs2)
            else JSONArray_loop py [] cs2)
         else scan_atom py cs)"
| "JSONArray_loop py values cs =
    (case scan_once py cs of
       Inl e \<Rightarrow> Inl e
     | Inr (v, rest) \<Rightarrow>
         (let rest1 = (if nextchar_in_ws rest then skip_ws (drop 1 rest) else rest) in
          if take 1 rest1 = [93] then Inr (JList (values @ [v]), drop 1 rest1)
          else if take 1 rest1 \<noteq> [44] then
            Inl (str ''Expecting ',' delimiter'', length rest1)
          else JSONArray_loop py (values @ [v]) (skip_ws_fast (drop 1 rest1))))"
| "JSONObject_loop py pairs cs =
    (case scanstring py (Suc (length cs)) cs of
       Inl e \<Rightarrow> Inl e
     | Inr (key, r0) \<Rightarrow>
         (let r1 = (if take 1 r0 \<noteq> [58] then skip_ws r0 else r0) in
          if take 1 r1 \<noteq> [58] then Inl (str ''Expecting ':' delimiter'', length r1)
          else
            (case scan_once py (skip_ws_fast (drop 1 r1)) of
               Inl e \<Rightarrow> Inl e
             | Inr (v, rest) \<Rightarrow>
                 (let rest1 = (if nextchar_in_ws rest then skip_ws (drop 1 rest) else rest) in
                  if take 1 rest1 = [125] then
                    Inr (JDict (py_dict (pairs @ [(key, v)])), drop 1 rest1)
                  else if take 1 rest1 \<noteq> [44] then
                    Inl (str ''Expecting ',' delimiter'', length rest1)
                  else
                    (let r2 = skip_ws (drop 1 rest1) in
                     if take 1 r2 \<noteq> [34] then
                       Inl (str ''Expecting property name enclosed in double quotes'',
                            length r2)
                     else JSONObject_loop py (pairs @ [(key, v)]) (drop 1 r2))))))"
  by pat_completeness auto

lemma length_skip_ws: "length (skip_ws cs) \<le> length cs"
  by (simp add: skip_ws_def length_dropWhile_le)

lemma length_skip_ws_fast: "length (skip_ws_fast cs) \<le> length cs"
  using length_skip_ws by (auto simp: skip_ws_fast_def le_SucI split: list.splits)

lemma append_char_Inr:
  "append_char ch r = Inr (s, rest) \<longleftrightarrow> (\<exists>s'. r = Inr (s', rest) \<and> s = ch # s')"
  by (auto simp: append_char_def split: sum.splits)

lemma scanstring_shorter:
  "scanstring py b cs = Inr (s, rest) \<Longrightarrow> length rest < length cs"
proof (induction py b cs arbitrary: s rest rule: scanstring.induct)
  case (1 py b)
  then show ?case by simp
next
  case (2 py b c cs)
  from "2.prems" show ?case
    apply (simp split: if_splits list.splits option.splits add: append_char_Inr)
    using "2.IH" by (fastforce simp: append_char_Inr)+
qed

lemma take_eq_str_length: "take n cs = s \<Longrightarrow> length s = n \<Longrightarrow> n \<le> length cs"
  by (metis length_take min.cobounded2 min_def nat_le_linear)

lemma length_dropWhile_drop: "length (dropWhile P (drop k r)) \<le> length r"
proof -
  have "length (dropWhile P (drop k r)) \<le> length (drop k r)" by (rule length_dropWhile_le)
  also have "\<dots> \<le> length r" by simp
  finally show ?thesis .
qed

lemma match_integer_shorter: "match_integer cs = Some (i, r) \<Longrightarrow> length r < length cs"
proof -
  assume a: "match_integer cs = Some (i, r)"
  let ?sign = "takeWhile (\<lambda>c. c = 45) (take 1 cs)"
  obtain d ds where d: "drop (length ?sign) cs = d # ds"
    using a by (cases "drop (length ?sign) cs") (auto simp: match_integer_def Let_def)
  have "length r \<le> length ds"
    using a d by (auto simp: match_integer_def Let_def length_dropWhile_le split: if_splits)
  moreover have "length ds < length cs"
    using d by (metis diff_le_self impossible_Cons leI length_drop order_trans)
  ultimately show ?thesis by simp
qed

lemma match_frac_shorter: "match_frac cs = (f, r) \<Longrightarrow> length r \<le> length cs"
  by (cases cs) (auto simp: match_frac_def length_dropWhile_le le_SucI split: if_splits)

lemma match_exp_shorter: "match_exp cs = (e, r) \<Longrightarrow> length r \<le> length cs"
  by (cases cs) (auto simp: match_exp_def Let_def length_dropWhile_drop le_SucI split: if_splits)

lemma match_number_shorter:
  "match_number cs = Some (i, f, e, r) \<Longrightarrow> length r < length cs"
proof -
  assume a: "match_number cs = Some (i, f, e, r)"
  then obtain r1 r2 where "match_integer cs = Some (i, r1)" "match_frac r1 = (f, r2)"
    "match_exp r2 = (e, r)"
    by (auto simp: match_number_def split: option.splits prod.splits)
  then show ?thesis
    using match_integer_shorter match_frac_shorter match_exp_shorter
    by (meson le_trans not_le)
qed

lemma scan_atom_shorter: "scan_atom py cs = Inr (v, rest) \<Longrightarrow> length rest < length cs"
proof -
  assume a: "scan_atom py cs = Inr (v, rest)"
  have lit: "take n cs = x # xs \<Longrightarrow> length (drop n cs) < length cs" for n x xs
    by (cases cs; cases n) auto
  consider "take 4 cs = str ''null''" "rest = drop 4 cs"
    | "take 4 cs = str ''true''" "rest = drop 4 cs"
    | "take 5 cs = str ''false''" "rest = drop 5 cs"
    | i f e where "match_number cs = Some (i, f, e, rest)"
    | "take 3 cs = str ''NaN''" "rest = drop 3 cs"
    | "take 8 cs = str ''Infinity''" "rest = drop 8 cs"
    | "take 9 cs = str ''-Infinity''" "rest = drop 9 cs"
    using a unfolding scan_atom_def
    by (auto split: if_splits option.splits)
  then show ?thesis
  proof cases
    case 4
    then show ?thesis by (rule match_number_shorter)
  qed (use lit in \<open>auto simp: str_def\<close>)
qed


lemma length_drop_skip_ws: "length (skip_ws (drop k cs)) \<le> length cs"
  unfolding skip_ws_def by (rule length_dropWhile_drop)

lemma length_drop_skip_ws_fast: "length (skip_ws_fast (drop k cs)) \<le> length cs"
  using length_skip_ws_fast [of "drop k cs"] by simp

lemma length_object_head:
  "length (if take 1 cs \<noteq> [34] \<and> nextchar_in_ws cs then skip_ws cs else cs) \<le> length cs"
  by (simp add: length_skip_ws)

lemma length_after_value:
  "length (if nextchar_in_ws cs then skip_ws (drop 1 cs) else cs) \<le> length cs"
  by (simp add: length_drop_skip_ws)

lemma length_before_colon:
  "length (if take 1 cs \<noteq> [58] then skip_ws cs else cs) \<le> length cs"
  by (simp add: length_skip_ws)

lemma drop1_le: "length xs \<le> n \<Longrightarrow> length (drop 1 xs) \<le> n"
  by simp

lemma scan_shorter_dom:
  "scan_once_JSONArray_loop_JSONObject_loop_dom (Inl (py, cs)) \<Longrightarrow>
     scan_once py cs = Inr (v, rest) \<Longrightarrow> length rest < length cs"
  "scan_once_JSONArray_loop_JSONObject_loop_dom (Inr (Inl (py, vals, cs))) \<Longrightarrow>
     JSONArray_loop py vals cs = Inr (v, rest) \<Longrightarrow> length rest < length cs"
  "scan_once_JSONArray_loop_JSONObject_loop_dom (Inr (Inr (py, pairs, cs))) \<Longrightarrow>
     JSONObject_loop py pairs cs = Inr (v, rest) \<Longrightarrow> length rest < length cs"
proof (induct arbitrary: v rest and v rest and v rest
    rule: scan_once_JSONArray_loop_JSONObject_loop.pinduct)
  case (1 py cs)
  show ?case
  proof (cases cs)
    case Nil
    with 1(1,4) show ?thesis by (simp add: scan_once.psimps)
  next
    case (Cons nextchar cs1)
    define obj where "obj = (if take 1 cs1 \<noteq> [34] \<and> nextchar_in_ws cs1 then skip_ws cs1 else cs1)"
    define arr where "arr = (if nextchar_in_ws cs1 then skip_ws (drop 1 cs1) else cs1)"
    have lo: "length obj \<le> length cs1" unfolding obj_def by (rule length_object_head)
    have la: "length arr \<le> length cs1" unfolding arr_def by (rule length_after_value)
    consider (string) "nextchar = 34"
      | (object) "nextchar \<noteq> 34" "nextchar = 123"
      | (array) "nextchar \<noteq> 34" "nextchar \<noteq> 123" "nextchar = 91"
      | (atom) "nextchar \<noteq> 34" "nextchar \<noteq> 123" "nextchar \<noteq> 91"
      by blast
    then show ?thesis
    proof cases
      case string
      with 1(1,4) Cons obtain s where "scanstring py (length cs) cs1 = Inr (s, rest)"
        by (auto simp: scan_once.psimps split: sum.splits)
      then show ?thesis using scanstring_shorter Cons by fastforce
    next
      case object
      show ?thesis
      proof (cases "take 1 obj = [125]")
        case True
        with 1(1,4) Cons object have "rest = drop 1 obj"
          by (simp add: scan_once.psimps obj_def Let_def)
        then show ?thesis using lo Cons by simp
      next
        case False
        with 1(1,4) Cons object have q: "take 1 obj = [34]"
          and r: "JSONObject_loop py [] (drop 1 obj) = Inr (v, rest)"
          by (auto simp: scan_once.psimps obj_def Let_def split: if_splits)
        have "length rest < length (drop 1 obj)"
          using "1.hyps"(2) [OF Cons object(1) object(2) obj_def False _ r] q by simp
        then show ?thesis using lo Cons by simp
      qed
    next
      case array
      show ?thesis
      proof (cases "take 1 arr = [93]")
        case True
        with 1(1,4) Cons array have "rest = drop 1 arr"
          by (simp add: scan_once.psimps arr_def Let_def)
        then show ?thesis using la Cons by simp
      next
        case False
        with 1(1,4) Cons array have r: "JSONArray_loop py [] arr = Inr (v, rest)"
          by (simp add: scan_once.psimps arr_def Let_def)
        have "length rest < length arr"
          using "1.hyps"(3) [OF Cons array(1) array(2) array(3) arr_def False r] .
        then show ?thesis using la Cons by simp
      qed
    next
      case atom
      with 1(1,4) Cons have "scan_atom py cs = Inr (v, rest)"
        by (simp add: scan_once.psimps)
      then show ?thesis by (rule scan_atom_shorter)
    qed
  qed
next
  case (2 py "values" cs)
  from 2(1,4) obtain x y where xy: "scan_once py cs = Inr (x, y)"
    by (auto simp: JSONArray_loop.psimps split: sum.splits)
  then have ly: "length y < length cs" by (rule "2.hyps"(2))
  define xa where "xa = (if nextchar_in_ws y then skip_ws (drop 1 y) else y)"
  have lx: "length xa \<le> length y" unfolding xa_def by (rule length_after_value)
  show ?case
  proof (cases "take 1 xa = [93]")
    case True
    with 2(1,4) xy have "rest = drop 1 xa"
      by (simp add: JSONArray_loop.psimps xa_def Let_def)
    then show ?thesis using lx ly by simp
  next
    case False
    with 2(1,4) xy have c: "\<not> take 1 xa \<noteq> [44]"
      and r: "JSONArray_loop py (values @ [x]) (skip_ws_fast (drop 1 xa)) = Inr (v, rest)"
      by (auto simp: JSONArray_loop.psimps xa_def Let_def split: if_splits)
    have "length rest < length (skip_ws_fast (drop 1 xa))"
      using "2.hyps"(3) [OF xy refl xa_def False c r] .
    also have "\<dots> \<le> length xa" by (rule length_drop_skip_ws_fast)
    finally show ?thesis using lx ly by simp
  qed
next
  case (3 py pairs cs)
  from 3(1,4) obtain key r0 where k: "scanstring py (Suc (length cs)) cs = Inr (key, r0)"
    by (auto simp: JSONObject_loop.psimps split: sum.splits)
  then have l0: "length r0 < length cs" by (rule scanstring_shorter)
  define r1 where "r1 = (if take 1 r0 \<noteq> [58] then skip_ws r0 else r0)"
  have l1: "length r1 \<le> length r0" unfolding r1_def by (rule length_before_colon)
  from 3(1,4) k have colon: "\<not> take 1 r1 \<noteq> [58]"
    by (auto simp: JSONObject_loop.psimps r1_def Let_def split: if_splits)
  with 3(1,4) k obtain x y where xy: "scan_once py (skip_ws_fast (drop 1 r1)) = Inr (x, y)"
    by (auto simp: JSONObject_loop.psimps r1_def Let_def split: sum.splits)
  have "length y < length (skip_ws_fast (drop 1 r1))"
    using "3.hyps"(2) [OF k refl r1_def colon xy] .
  also have "\<dots> \<le> length r1" by (rule length_drop_skip_ws_fast)
  finally have ly: "length y < length cs" using l1 l0 by simp
  define xa where "xa = (if nextchar_in_ws y then skip_ws (drop 1 y) else y)"
  have lx: "length xa \<le> length y" unfolding xa_def by (rule length_after_value)
  show ?case
  proof (cases "take 1 xa = [125]")
    case True
    with 3(1,4) k colon xy have "rest = drop 1 xa"
      by (simp add: JSONObject_loop.psimps r1_def xa_def Let_def)
    then show ?thesis using lx ly by simp
  next
    case False
    define r2 where "r2 = skip_ws (drop 1 xa)"
    have l2: "length r2 \<le> length xa" unfolding r2_def by (rule length_drop_skip_ws)
    from False 3(1,4) k colon xy have c: "\<not> take 1 xa \<noteq> [44]" and q: "\<not> take 1 r2 \<noteq> [34]"
      and r: "JSONObject_loop py (pairs @ [(key, x)]) (drop 1 r2) = Inr (v, rest)"
      by (auto simp: JSONObject_loop.psimps r1_def xa_def r2_def Let_def split: if_splits)
    have "length rest < length (drop 1 r2)"
      using "3.hyps"(3) [OF k refl r1_def colon xy refl xa_def False c r2_def q r] .
    then show ?thesis using l2 lx ly by simp
  qed
qed

termination scan_once
proof (relation "measure (\<lambda>x. case x of
          Inl (py, cs) \<Rightarrow> 2 * length cs
        | Inr (Inl (py, vals, cs)) \<Rightarrow> 2 * length cs + 1
        | Inr (Inr (py, pairs, cs)) \<Rightarrow> 2 * length cs + 1)", goal_cases)
  case 1
  show ?case by simp
next
  case (2 py cs nextchar cs1 cs2)
  have "length (drop 1 cs2) \<le> length cs1"
    unfolding 2 by (intro drop1_le length_object_head)
  then show ?case using 2 by simp
next
  case (3 py cs nextchar cs1 cs2)
  have "length cs2 \<le> length cs1"
    unfolding 3 by (rule length_after_value)
  then show ?case using 3 by simp
next
  case (4 py "values" cs)
  show ?case by simp
next
  case (5 py "values" cs b v rest rest1)
  then have "length rest < length cs"
    using scan_shorter_dom(1) [of py cs v rest] by simp
  moreover have "length rest1 \<le> length rest"
    unfolding 5 by (rule length_after_value)
  moreover have "length (skip_ws_fast (drop 1 rest1)) \<le> length rest1"
    by (rule length_drop_skip_ws_fast)
  ultimately show ?case by simp
next
  case (6 py pairs cs b key r0 r1)
  then have "length r0 < length cs"
    using scanstring_shorter [of py "Suc (length cs)" cs key r0] by simp
  moreover have "length r1 \<le> length r0"
    unfolding 6 by (rule length_before_colon)
  moreover have "length (skip_ws_fast (drop 1 r1)) \<le> length r1"
    by (rule length_drop_skip_ws_fast)
  ultimately show ?case by simp
next
  case (7 py pairs cs b key r0 r1 ba v rest rest1 r2)
  then have "length r0 < length cs"
    using scanstring_shorter [of py "Suc (length cs)" cs key r0] by simp
  moreover have "length r1 \<le> length r0"
    unfolding 7 by (rule length_before_colon)
  moreover have "length (skip_ws_fast (drop 1 r1)) \<le> length r1"
    by (rule length_drop_skip_ws_fast)
  moreover have "length rest < length (skip_ws_fast (drop 1 r1))"
    using 7 scan_shorter_dom(1) [of py "skip_ws_fast (drop 1 r1)" v rest] by simp
  moreover have "length rest1 \<le> length rest"
    unfolding 7 by (rule length_after_value)
  moreover have "length (drop 1 r2) \<le> length rest1"
    unfolding 7 by (intro drop1_le length_drop_skip_ws)
  ultimately show ?case by simp
qed

text \<open>\<open>JSONDecoder.decode\<close> and \<open>json.loads\<close> on a \<open>str\<close>.\<close>

definition json_decode :: "'f interpreter \<Rightarrow> pystr \<Rightarrow> exn + 'f json" where
  "json_decode py s =
    (case scan_once py (skip_ws s) of
       Inl (msg, remaining) \<Rightarrow> Inl (JSONDecodeError msg s (length s - remaining))
     | Inr (obj, rest) \<Rightarrow>
         (let rest' = skip_ws rest in
          if rest' \<noteq> [] then
            Inl (JSONDecodeError (str ''Extra data'') s (length s - length rest'))
          else Inr obj))"

definition json_loads :: "'f interpreter \<Rightarrow> pystr \<Rightarrow> exn + 'f json" where
  "json_loads py s =
    (if take 1 s = [65279] then
       Inl (JSONDecodeError (str ''Unexpected UTF-8 BOM (decode using utf-8-sig)'') s 0)
     else json_decode py s)"

subsection \<open>\<open>json.encoder\<close>\<close>

text \<open>
  \<open>ESCAPE = re.compile(r'[\x00-\x1f\\"\b\f\n\r\t]')\<close> and \<open>ESCAPE_DCT\<close>, read by
  \<open>encode_basestring\<close> (the encoder for \<open>ensure_ascii=False\<close>).
\<close>

definition ESCAPE :: "nat \<Rightarrow> bool" where
  "ESCAPE c \<longleftrightarrow> c \<le> 31 \<or> c = 92 \<or> c = 34"

definition hex_char :: "nat \<Rightarrow> nat" where
  "hex_char d = (if d < 10 then 48 + d else 87 + d)"

definition ESCAPE_DCT :: "nat \<Rightarrow> pystr" where
  "ESCAPE_DCT c =
     (if c = 92 then [92, 92] else if c = 34 then [92, 34]
      else if c = 8 then [92, 98] else if c = 12 then [92, 102]
      else if c = 10 then [92, 110] else if c = 13 then [92, 114]
      else if c = 9 then [92, 116]
      else [92, 117, 48, 48, hex_char (c div 16), hex_char (c mod 16)])"

definition encode_basestring :: "pystr \<Rightarrow> pystr" where
  "encode_basestring s =
     34 # concat (map (\<lambda>c. if ESCAPE c then ESCAPE_DCT c else [c]) s) @ [34]"

definition floatstr :: "'f interpreter \<Rightarrow> 'f pyfloat \<Rightarrow> pystr" where
  "floatstr py x =
     (case x of
        NaN \<Rightarrow> str ''NaN''
      | PosInf \<Rightarrow> str ''Infinity''
      | NegInf \<Rightarrow> str ''-Infinity''
      | Finite f \<Rightarrow> float_repr py f)"

text \<open>
  \<open>_make_iterencode\<close>. The argument \<open>ind\<close> is \<open>_indent\<close> after
  \<open>_indent = ' ' * _indent\<close>: \<open>None\<close>, or the string of one indentation step.
  \<open>newline_indent\<close> is \<open>'\n' + _indent * _current_indent_level\<close>, and nothing when
  \<open>_indent\<close> is \<open>None\<close>; the item separator is \<open>', '\<close> without indentation and \<open>','\<close>
  with it, the key separator \<open>': '\<close>.
\<close>

definition newline_indent :: "pystr option \<Rightarrow> nat \<Rightarrow> pystr" where
  "newline_indent ind level =
     (case ind of None \<Rightarrow> [] | Some i \<Rightarrow> 10 # concat (replicate level i))"

definition item_separator :: "pystr option \<Rightarrow> pystr" where
  "item_separator ind = (case ind of None \<Rightarrow> [44, 32] | Some i \<Rightarrow> [44])"

definition key_separator :: pystr where
  "key_separator = [58, 32]"

text \<open>
  \<open>iterencode\<close> is \<open>_iterencode\<close> with \<open>_iterencode_list\<close> and \<open>_iterencode_dict\<close>
  unfolded at their calls; \<open>iterencode_list\<close> and \<open>iterencode_dict\<close> are the
  \<open>for\<close> loops of those two, at the level already incremented.
\<close>

fun iterencode :: "'f interpreter \<Rightarrow> pystr option \<Rightarrow> 'f json \<Rightarrow> nat \<Rightarrow> pystr"
  and iterencode_list :: "'f interpreter \<Rightarrow> pystr option \<Rightarrow> 'f json list \<Rightarrow> nat \<Rightarrow> pystr"
  and iterencode_dict ::
    "'f interpreter \<Rightarrow> pystr option \<Rightarrow> (pystr \<times> 'f json) list \<Rightarrow> nat \<Rightarrow> pystr"
where
  "iterencode py ind (JStr s) level = encode_basestring s"
| "iterencode py ind JNull level = str ''null''"
| "iterencode py ind (JBool b) level = (if b then str ''true'' else str ''false'')"
| "iterencode py ind (JInt i) level = str_int i"
| "iterencode py ind (JFloat x) level = floatstr py x"
| "iterencode py ind (JList lst) level =
     (if lst = [] then str ''[]''
      else 91 # newline_indent ind (level + 1) @ iterencode_list py ind lst (level + 1) @
           newline_indent ind level @ [93])"
| "iterencode py ind (JDict dct) level =
     (if dct = [] then str ''{}''
      else 123 # newline_indent ind (level + 1) @ iterencode_dict py ind dct (level + 1) @
           newline_indent ind level @ [125])"
| "iterencode_list py ind [] level = []"
| "iterencode_list py ind (v # vs) level =
     iterencode py ind v level @
     (if vs = [] then []
      else item_separator ind @ newline_indent ind level @ iterencode_list py ind vs level)"
| "iterencode_dict py ind [] level = []"
| "iterencode_dict py ind ((key, v) # items) level =
     encode_basestring key @ key_separator @ iterencode py ind v level @
     (if items = [] then []
      else item_separator ind @ newline_indent ind level @ iterencode_dict py ind items level)"

text \<open>
  \<open>JSONEncoder.encode\<close> and
  \<open>json.dumps(obj, indent=indent, ensure_ascii=False)\<close>. Every value of type \<open>json\<close>
  is serializable, so no exception is raised.
\<close>

definition json_encode :: "'f interpreter \<Rightarrow> int option \<Rightarrow> 'f json \<Rightarrow> pystr" where
  "json_encode py indent_arg obj =
     (case obj of
        JStr s \<Rightarrow> encode_basestring s
      | _ \<Rightarrow> iterencode py (map_option (\<lambda>n. replicate (nat n) 32) indent_arg) obj 0)"

definition json_dumps :: "'f interpreter \<Rightarrow> 'f json \<Rightarrow> int option \<Rightarrow> exn + pystr" where
  "json_dumps py obj indent_arg = Inr (json_encode py indent_arg obj)"

subsection \<open>An interpreter for worked examples\<close>

text \<open>
  The theorems below hold for every interpreter. Where an example needs one, it uses
  this one, whose finite floats are the integral ones: \<open>repr\<close> writes \<open>3.0\<close> for the
  float three and \<open>float\<close> reads the digits before the point.
\<close>

definition sample_interpreter :: "int interpreter" where
  "sample_interpreter =
     \<lparr>float_of_str = (\<lambda>s. Finite (int_of_str (takeWhile (\<lambda>c. c \<noteq> 46) s))),
      float_repr = (\<lambda>i. str_int i @ str ''.0''),
      repr_char = (\<lambda>c. [39, c, 39])\<rparr>"


subsection \<open>Notions used in the statements\<close>

text \<open>
  A delimiter follows: the rest of the text is empty or starts with a comma, a closing
  bracket, a closing brace or a line feed.
\<close>

definition at_delim :: "pystr \<Rightarrow> bool" where
  "at_delim rest = (case rest of [] \<Rightarrow> True | c # _ \<Rightarrow> c = 44 \<or> c = 93 \<or> c = 125 \<or> c = 10)"






section \<open>Verified properties of the Markdown service\<close>


lemma py_strip_empty_iff: "py_strip s = [] \<longleftrightarrow> (\<forall>c \<in> set s. py_isspace c)"
proof -
  have a: "(\<forall>c \<in> set (dropWhile py_isspace s). py_isspace c) \<longleftrightarrow> dropWhile py_isspace s = []"
  proof
    assume h: "\<forall>c \<in> set (dropWhile py_isspace s). py_isspace c"
    show "dropWhile py_isspace s = []"
    proof (rule ccontr)
      assume n: "dropWhile py_isspace s \<noteq> []"
      then have "\<not> py_isspace (hd (dropWhile py_isspace s))" by (rule hd_dropWhile)
      moreover have "hd (dropWhile py_isspace s) \<in> set (dropWhile py_isspace s)"
        using n by (rule hd_in_set)
      ultimately show False using h by blast
    qed
  next
    assume "dropWhile py_isspace s = []"
    then show "\<forall>c \<in> set (dropWhile py_isspace s). py_isspace c"
      by (simp only: list.set ball_empty)
  qed
  have "py_strip s = [] \<longleftrightarrow> (\<forall>c \<in> set (dropWhile py_isspace s). py_isspace c)"
    unfolding py_strip_def by (simp only: rev_is_Nil_conv dropWhile_eq_Nil_conv set_rev)
  then show ?thesis
    unfolding a by (simp only: dropWhile_eq_Nil_conv)
qed

lemma valid_formats: "str ''html'' \<in> set [str ''html'', str ''pdf'']"
  by simp

lemma str_nat_400: "str_nat 400 = str ''400''"
  by code_simp

lemma empty_detail_neq:
  "str ''File must be a valid text file with UTF-8 encoding'' \<noteq> str ''File is empty''"
  "str ''File must be a valid text file with UTF-8 encoding'' \<noteq> str ''Content cannot be empty''"
  "bad_format_detail \<noteq> str ''File is empty''"
  "bad_format_detail \<noteq> str ''Content cannot be empty''"
  by (simp_all add: str_def bad_format_detail_def)

lemma convert_upload_blank:
  assumes "utf8_dec (map unat bs) = Some s" and "py_strip s = []"
    and "fmt \<in> set [str ''html'', str ''pdf'']"
  shows "convert_upload env fn bs fmt =
           Inl (HTTPException 500 (str ''Conversion error: 400: File is empty''))"
  using assms
  by (simp add: convert_upload_def convert_upload_try_def decode_utf8_def ebind_def
      str_nat_400 str_def)

lemma convert_paste_blank:
  "py_strip c = [] \<Longrightarrow>
     convert_paste env c fmt t = Inl (HTTPException 400 (str ''Content cannot be empty''))"
  by (simp add: convert_paste_def)

text \<open>
  C4. Blank content must be answered with a 400-class error on both endpoints. The paste
  endpoint does so (\<open>convert_paste_blank\<close>). The upload endpoint raises its 400 error
  inside the \<open>try\<close> statement, where the clause \<open>except Exception\<close> catches it and
  raises a 500 error in its place: an empty uploaded file with format \<open>html\<close> is
  answered with status 500.
\<close>

theorem convert_upload_empty_file_is_500:
  "convert_upload env fn [] (str ''html'') =
     Inl (HTTPException 500 (str ''Conversion error: 400: File is empty''))"
  by (rule convert_upload_blank [where s = "[]"]) (simp_all add: py_strip_def)

text \<open>
  C7. An upload whose bytes are not valid UTF-8 is answered with a 400 error, and that
  error is not the empty-content error: its detail is neither of the two empty-content
  messages and, for a valid output format, the answer differs from the answer of either
  endpoint to blank content.
\<close>

theorem convert_upload_not_utf8:
  assumes "utf8_dec (map unat bs) = None"
  shows "(\<exists>d. convert_upload env fn bs fmt = Inl (HTTPException 400 d) \<and>
              d \<noteq> str ''File is empty'' \<and> d \<noteq> str ''Content cannot be empty'') \<and>
         (fmt \<in> set [str ''html'', str ''pdf''] \<longrightarrow>
            convert_upload env fn bs fmt =
              Inl (HTTPException 400 (str ''File must be a valid text file with UTF-8 encoding'')) \<and>
            (\<forall>bs' s. utf8_dec (map unat bs') = Some s \<and> py_strip s = [] \<longrightarrow>
               convert_upload env fn bs fmt \<noteq> convert_upload env fn bs' fmt) \<and>
            (\<forall>c t. py_strip c = [] \<longrightarrow>
               convert_upload env fn bs fmt \<noteq> convert_paste env c fmt t))"
proof (cases "fmt \<in> set [str ''html'', str ''pdf'']")
  case True
  have r: "convert_upload env fn bs fmt =
      Inl (HTTPException 400 (str ''File must be a valid text file with UTF-8 encoding''))"
    using assms True
    by (simp add: convert_upload_def convert_upload_try_def decode_utf8_def ebind_def)
  show ?thesis
    using True r empty_detail_neq convert_upload_blank [of _ _ fmt env fn]
      convert_paste_blank [of _ env fmt]
    by auto
next
  case False
  then have "convert_upload env fn bs fmt = Inl (HTTPException 400 bad_format_detail)"
    by (simp add: convert_upload_def)
  with False show ?thesis
    using empty_detail_neq by auto
qed

theorem convert_upload_not_utf8_witness:
  "\<forall>env fn.
     utf8_dec (map unat [0xFF :: 8 word]) = None \<and>
     convert_upload env fn [0xFF] (str ''html'') =
       Inl (HTTPException 400 (str ''File must be a valid text file with UTF-8 encoding'')) \<and>
     convert_upload env fn [0xFF] (str ''html'') \<noteq> convert_upload env fn [] (str ''html'')"
proof (intro allI)
  fix env fn
  have h: "utf8_dec (map unat [0xFF :: 8 word]) = None" by simp
  have e: "utf8_dec (map unat ([] :: 8 word list)) = Some [] \<and> py_strip [] = []"
    by (simp add: py_strip_def)
  show "utf8_dec (map unat [0xFF :: 8 word]) = None \<and>
     convert_upload env fn [0xFF] (str ''html'') =
       Inl (HTTPException 400 (str ''File must be a valid text file with UTF-8 encoding'')) \<and>
     convert_upload env fn [0xFF] (str ''html'') \<noteq> convert_upload env fn [] (str ''html'')"
    using h e convert_upload_not_utf8 [OF h, of env fn "str ''html''"] valid_formats
    by blast
qed

text \<open>
  C8. An output format other than \<open>html\<close> and \<open>pdf\<close> is answered with a 400 error by
  both endpoints, and the answer does not depend on the collaborators: no conversion
  is attempted.
\<close>

theorem invalid_output_format_rejected:
  assumes "fmt \<notin> set [str ''html'', str ''pdf'']"
  shows "(\<exists>d. convert_paste env c fmt t = Inl (HTTPException 400 d)) \<and>
         convert_upload env fn bs fmt = Inl (HTTPException 400 bad_format_detail) \<and>
         (\<forall>env'. convert_paste env' c fmt t = convert_paste env c fmt t \<and>
                 convert_upload env' fn bs fmt = convert_upload env fn bs fmt)"
  using assms by (simp add: convert_paste_def convert_upload_def)

theorem invalid_output_format_rejected_witness:
  "\<forall>env t fn bs.
     str ''xml'' \<notin> set [str ''html'', str ''pdf''] \<and>
     convert_paste env (str ''# Title'') (str ''xml'') t = Inl (HTTPException 400 bad_format_detail) \<and>
     convert_upload env fn bs (str ''xml'') = Inl (HTTPException 400 bad_format_detail)"
proof (intro allI)
  fix env t fn bs
  have h: "str ''xml'' \<notin> set [str ''html'', str ''pdf'']" by (simp add: str_def)
  have p: "py_strip (str ''# Title'') \<noteq> []"
    by (simp add: py_strip_empty_iff str_def py_isspace_def)
  have "convert_paste env (str ''# Title'') (str ''xml'') t = Inl (HTTPException 400 bad_format_detail)"
    using h p by (simp add: convert_paste_def)
  then show "str ''xml'' \<notin> set [str ''html'', str ''pdf''] \<and>
     convert_paste env (str ''# Title'') (str ''xml'') t = Inl (HTTPException 400 bad_format_detail) \<and>
     convert_upload env fn bs (str ''xml'') = Inl (HTTPException 400 bad_format_detail)"
    using h invalid_output_format_rejected [OF h, of env "str ''# Title''" t fn bs] by simp
qed

lemma rfind_upto_absent: "c \<notin> set p \<Longrightarrow> rfind_upto c p n = - 1"
  by (induction n) auto

lemma rfind_upto_last:
  "c \<notin> set (take n ys) \<Longrightarrow> n \<le> length ys \<Longrightarrow>
     rfind_upto c (xs @ c # ys) (Suc (length xs + n)) = int (length xs)"
proof (induction n)
  case 0
  then show ?case by simp
next
  case (Suc n)
  then have "ys ! n \<noteq> c" "c \<notin> set (take n ys)"
    by (auto simp: take_Suc_conv_app_nth)
  with Suc show ?case
    by (simp add: nth_append)
qed

lemma rfind_last: "c \<notin> set ys \<Longrightarrow> rfind c (xs @ c # ys) = int (length xs)"
  using rfind_upto_last [of c "length ys" ys xs] by (simp add: rfind_def)

lemma rfind_absent: "c \<notin> set p \<Longrightarrow> rfind c p = - 1"
  by (simp add: rfind_def rfind_upto_absent)

lemma skip_leading_dots_iff:
  "skip_leading_dots p i d \<longleftrightarrow> (\<exists>j. i \<le> j \<and> j < d \<and> take 1 (drop j p) \<noteq> [46])"
proof (induction p i d rule: skip_leading_dots.induct)
  case (1 p i d)
  show ?case
  proof (cases "i < d")
    case False
    then show ?thesis by (subst skip_leading_dots.simps) auto
  next
    case True
    show ?thesis
    proof (cases "take 1 (drop i p) \<noteq> [46]")
      case True
      with \<open>i < d\<close> show ?thesis by (subst skip_leading_dots.simps) auto
    next
      case False
      with \<open>i < d\<close> have "skip_leading_dots p i d \<longleftrightarrow> skip_leading_dots p (Suc i) d"
        by (subst skip_leading_dots.simps) simp
      also have "\<dots> \<longleftrightarrow> (\<exists>j. Suc i \<le> j \<and> j < d \<and> take 1 (drop j p) \<noteq> [46])"
        using 1 \<open>i < d\<close> False by simp
      also have "\<dots> \<longleftrightarrow> (\<exists>j. i \<le> j \<and> j < d \<and> take 1 (drop j p) \<noteq> [46])"
        using False by (metis Suc_leD Suc_leI le_neq_implies_less)
      finally show ?thesis .
    qed
  qed
qed

lemma splitext_plain:
  assumes "47 \<notin> set base" "47 \<notin> set ext" "46 \<notin> set ext" "\<exists>c \<in> set base. c \<noteq> 46"
  shows "splitext (base @ 46 # ext) = (base, 46 # ext)"
proof -
  let ?p = "base @ 46 # ext"
  have sep: "rfind 47 ?p = - 1" using assms by (intro rfind_absent) auto
  have dot: "rfind 46 ?p = int (length base)" using assms by (intro rfind_last) auto
  from assms(4) obtain j where j: "j < length base" "base ! j \<noteq> 46"
    by (auto simp: in_set_conv_nth)
  then have "take 1 (drop j ?p) \<noteq> [46]"
    by (simp add: take_Suc_conv_app_nth nth_append)
  with j have "skip_leading_dots ?p 0 (length base)"
    by (subst skip_leading_dots_iff) blast
  then show ?thesis
    by (simp add: splitext_def sep dot)
qed

text \<open>
  C10. The upload endpoint never looks at the extension of the file name. For valid,
  non-blank UTF-8 content and a valid output format it goes on to the conversion, with
  the title \<open>splitext(filename)[0]\<close>; two plain file names that differ only in their
  extension get the same answer.
\<close>

theorem convert_upload_any_extension:
  assumes "utf8_dec (map unat bs) = Some md" and "py_strip md \<noteq> []"
    and "fmt \<in> set [str ''html'', str ''pdf'']"
  shows "convert_upload env (Some f) bs fmt =
           (case convert_and_stream env md
                   (if f = [] then str ''Document'' else fst (splitext f)) fmt of
              Inr response \<Rightarrow> Inr response
            | Inl (UnicodeDecodeError m) \<Rightarrow>
                Inl (HTTPException 400
                      (str ''File must be a valid text file with UTF-8 encoding''))
            | Inl e \<Rightarrow> Inl (HTTPException 500 (str ''Conversion error: '' @ exn_str e))) \<and>
         (\<forall>base ext ext'.
            47 \<notin> set base \<and> (\<exists>c \<in> set base. c \<noteq> 46) \<and>
            47 \<notin> set ext \<and> 46 \<notin> set ext \<and> 47 \<notin> set ext' \<and> 46 \<notin> set ext' \<longrightarrow>
            convert_upload env (Some (base @ 46 # ext)) bs fmt =
            convert_upload env (Some (base @ 46 # ext')) bs fmt)"
proof -
  have unfolded: "convert_upload env (Some g) bs fmt =
           (case convert_and_stream env md
                   (if g = [] then str ''Document'' else fst (splitext g)) fmt of
              Inr response \<Rightarrow> Inr response
            | Inl (UnicodeDecodeError m) \<Rightarrow>
                Inl (HTTPException 400
                      (str ''File must be a valid text file with UTF-8 encoding''))
            | Inl e \<Rightarrow> Inl (HTTPException 500 (str ''Conversion error: '' @ exn_str e)))" for g
    using assms
    by (simp add: convert_upload_def convert_upload_try_def decode_utf8_def ebind_def)
  show ?thesis
    by (intro conjI allI impI, rule unfolded) (simp add: unfolded splitext_plain)
qed

theorem convert_upload_any_extension_witness:
  "\<forall>env.
     utf8_dec (map unat [35, 32, 72, 105 :: 8 word]) = Some (str ''# Hi'') \<and>
     py_strip (str ''# Hi'') \<noteq> [] \<and>
     convert_upload env (Some (str ''notes.exe'')) [35, 32, 72, 105] (str ''html'') =
     convert_upload env (Some (str ''notes.md'')) [35, 32, 72, 105] (str ''html'')"
proof (intro allI)
  fix env
  have d: "utf8_dec (map unat [35, 32, 72, 105 :: 8 word]) = Some (str ''# Hi'')"
    by (simp add: str_def)
  have p: "py_strip (str ''# Hi'') \<noteq> []"
    by (simp add: py_strip_empty_iff str_def py_isspace_def)
  note all = convert_upload_any_extension [OF d p valid_formats, of env "[]", THEN conjunct2,
      rule_format, of "str ''notes''" "str ''exe''" "str ''md''"]
  have e: "convert_upload env (Some (str ''notes'' @ 46 # str ''exe'')) [35, 32, 72, 105] (str ''html'') =
           convert_upload env (Some (str ''notes'' @ 46 # str ''md'')) [35, 32, 72, 105] (str ''html'')"
    by (rule all) (simp add: str_def)
  show "utf8_dec (map unat [35, 32, 72, 105 :: 8 word]) = Some (str ''# Hi'') \<and>
     py_strip (str ''# Hi'') \<noteq> [] \<and>
     convert_upload env (Some (str ''notes.exe'')) [35, 32, 72, 105] (str ''html'') =
     convert_upload env (Some (str ''notes.md'')) [35, 32, 72, 105] (str ''html'')"
    using d p e by (simp add: str_def)
qed

section \<open>Verified properties of the JSON service\<close>

subsection \<open>Whitespace\<close>

lemma skip_ws_fast_eq: "skip_ws_fast cs = skip_ws cs"
  by (auto simp: skip_ws_fast_def skip_ws_def split: list.splits)

lemma after_value_eq:
  "(if nextchar_in_ws cs then skip_ws (drop 1 cs) else cs) = skip_ws cs"
  by (cases cs) (auto simp: nextchar_in_ws_def skip_ws_def)

lemma before_colon_eq: "(if take 1 cs \<noteq> [58] then skip_ws cs else cs) = skip_ws cs"
  by (cases cs) (auto simp: skip_ws_def is_ws_def)

lemma object_head_eq:
  "(if take 1 cs \<noteq> [34] \<and> nextchar_in_ws cs then skip_ws cs else cs) = skip_ws cs"
  by (cases cs) (auto simp: nextchar_in_ws_def skip_ws_def is_ws_def)

lemma skip_ws_Nil [simp]: "skip_ws [] = []"
  by (simp add: skip_ws_def)

lemma skip_ws_Cons: "skip_ws (c # cs) = (if is_ws c then skip_ws cs else c # cs)"
  by (simp add: skip_ws_def)


text \<open>The equations of the scanner with the whitespace idioms folded.\<close>

lemma scan_once_Nil: "scan_once py [] = Inl (str ''Expecting value'', 0)"
  by simp

lemma scan_once_string:
  "scan_once py (34 # cs) =
     (case scanstring py (Suc (length cs)) cs of
        Inl e \<Rightarrow> Inl e
      | Inr (s, rest) \<Rightarrow> Inr (JStr s, rest))"
  by simp

lemma scan_once_object:
  "scan_once py (123 # cs) =
     (if take 1 (skip_ws cs) = [125] then Inr (JDict [], drop 1 (skip_ws cs))
      else if take 1 (skip_ws cs) \<noteq> [34] then
        Inl (str ''Expecting property name enclosed in double quotes'', length (skip_ws cs))
      else JSONObject_loop py [] (drop 1 (skip_ws cs)))"
  by (subst scan_once.simps)
     (simp only: object_head_eq Let_def list.case, simp del: JSONObject_loop.simps)

lemma scan_once_array:
  "scan_once py (91 # cs) =
     (if take 1 (skip_ws cs) = [93] then Inr (JList [], drop 1 (skip_ws cs))
      else JSONArray_loop py [] (skip_ws cs))"
  by (subst scan_once.simps)
     (simp only: after_value_eq Let_def list.case, simp del: JSONArray_loop.simps)

lemma scan_once_atom:
  "c \<noteq> 34 \<Longrightarrow> c \<noteq> 123 \<Longrightarrow> c \<noteq> 91 \<Longrightarrow> scan_once py (c # cs) = scan_atom py (c # cs)"
  by simp

lemma JSONArray_loop_eq:
  "JSONArray_loop py vals cs =
    (case scan_once py cs of
       Inl e \<Rightarrow> Inl e
     | Inr (v, rest) \<Rightarrow>
         if take 1 (skip_ws rest) = [93] then Inr (JList (vals @ [v]), drop 1 (skip_ws rest))
         else if take 1 (skip_ws rest) \<noteq> [44] then
           Inl (str ''Expecting ',' delimiter'', length (skip_ws rest))
         else JSONArray_loop py (vals @ [v]) (skip_ws (drop 1 (skip_ws rest))))"
  by (subst JSONArray_loop.simps)
     (simp only: after_value_eq skip_ws_fast_eq Let_def cong: sum.case_cong prod.case_cong)

lemma JSONObject_loop_eq:
  "JSONObject_loop py pairs cs =
    (case scanstring py (Suc (length cs)) cs of
       Inl e \<Rightarrow> Inl e
     | Inr (key, r0) \<Rightarrow>
         if take 1 (skip_ws r0) \<noteq> [58] then
           Inl (str ''Expecting ':' delimiter'', length (skip_ws r0))
         else
           (case scan_once py (skip_ws (drop 1 (skip_ws r0))) of
              Inl e \<Rightarrow> Inl e
            | Inr (v, rest) \<Rightarrow>
                if take 1 (skip_ws rest) = [125] then
                  Inr (JDict (py_dict (pairs @ [(key, v)])), drop 1 (skip_ws rest))
                else if take 1 (skip_ws rest) \<noteq> [44] then
                  Inl (str ''Expecting ',' delimiter'', length (skip_ws rest))
                else if take 1 (skip_ws (drop 1 (skip_ws rest))) \<noteq> [34] then
                  Inl (str ''Expecting property name enclosed in double quotes'',
                       length (skip_ws (drop 1 (skip_ws rest))))
                else JSONObject_loop py (pairs @ [(key, v)])
                       (drop 1 (skip_ws (drop 1 (skip_ws rest))))))"
  by (subst JSONObject_loop.simps)
     (simp only: after_value_eq skip_ws_fast_eq before_colon_eq Let_def
       cong: sum.case_cong prod.case_cong)

declare scan_once.simps [simp del] JSONArray_loop.simps [simp del] JSONObject_loop.simps [simp del]

subsection \<open>Strings are read back\<close>






subsection \<open>Integers are read back\<close>















subsection \<open>Where a value starts\<close>







subsection \<open>Floats and constants are read back\<close>




lemma at_delim_Nil [simp]: "at_delim []"
  by (simp add: at_delim_def)


lemma encode_basestring_Cons: "\<exists>cs. encode_basestring s = 34 # cs"
  by (simp add: encode_basestring_def)







subsection \<open>\<open>dict(pairs)\<close>\<close>




subsection \<open>The scanner reads back what the encoder writes\<close>

lemma item_separator_at_delim: "at_delim (item_separator ind @ cs)"
  by (cases ind) (simp_all add: item_separator_def at_delim_def)


subsection \<open>\<open>json.loads\<close> reads back what \<open>json.dumps\<close> writes\<close>




subsection \<open>Parsed values have distinct keys\<close>











subsection \<open>The sample interpreter reads its floats back\<close>



subsection \<open>Line and column of a parse failure\<close>





subsection \<open>The handler, case by case\<close>


lemma format_json_decode_error:
  "loads (py_replace 39 [34] (text data)) = Inl (JSONDecodeError msg doc pos) \<Longrightarrow>
     format_json loads dumps data =
       Inr \<lparr>success = False, formatted = None, error = Some (str ''JSON Error: '' @ msg),
            error_line = Some (lineno doc pos), error_column = Some (colno doc pos)\<rparr>"
  by (simp add: format_json_def format_json_try_def ebind_def)





subsection \<open>Evaluation on examples\<close>

text \<open>The equations that evaluate the model on a concrete text.\<close>

lemmas json_eval =
  json_loads_def json_decode_def scan_once_Nil scan_once_string scan_once_object
  scan_once_array scan_once_atom JSONArray_loop_eq JSONObject_loop_eq
  skip_ws_Cons is_ws_def append_char_def BACKSLASH_def decode_uXXXX_def hex_digit_def
  scan_atom_def match_number_def match_integer_def match_frac_def match_exp_def
  is_digit_def int_of_str_def py_dict_def str_def sample_interpreter_def py_replace_def Let_def
  json_dumps_def json_encode_def newline_indent_def item_separator_def key_separator_def
  encode_basestring_def ESCAPE_def ESCAPE_DCT_def hex_char_def str_int_def str_nat.simps
  floatstr_def lineno_def colno_def

subsection \<open>The claims about the JSON service\<close>

text \<open>
  C9. The handler of \<open>/api/format\<close> returns a response for every request and every
  behaviour of the library calls, never an exception; a response with \<open>success\<close> true has
  \<open>formatted\<close> set and the three error fields null, a response with \<open>success\<close> false
  has \<open>error\<close> set and \<open>formatted\<close> null.
\<close>

theorem format_json_response_shape:
  "\<exists>r. format_json loads dumps data = Inr r \<and>
       (success r \<longrightarrow>
          formatted r \<noteq> None \<and> error r = None \<and> error_line r = None \<and>
          error_column r = None) \<and>
       (\<not> success r \<longrightarrow> error r \<noteq> None \<and> formatted r = None)"
proof (cases "format_json_try loads dumps data")
  case (Inl e)
  then show ?thesis by (cases e) (simp_all add: format_json_def)
next
  case (Inr r)
  then have "r = \<lparr>success = True, formatted = formatted r, error = None,
      error_line = None, error_column = None\<rparr> \<and> formatted r \<noteq> None"
    by (auto simp: format_json_try_def ebind_def Let_def split: sum.splits)
  then have "success r \<and> formatted r \<noteq> None \<and> error r = None \<and> error_line r = None \<and>
      error_column r = None"
    by (metis JSONResponse.select_convs(1,3,4,5))
  with Inr show ?thesis by (simp add: format_json_def)
qed

lemma invalid_example:
  "json_loads sample_interpreter (py_replace 39 [34] (str ''{invalid'')) =
     Inl (JSONDecodeError (str ''Expecting property name enclosed in double quotes'')
           (str ''{invalid'') 1)"
  by (simp add: json_eval)


lemma invalid_example_position:
  "lineno (str ''{invalid'') 1 = 1" "colno (str ''{invalid'') 1 = 2"
  "lineno [] 0 = 1" "colno [] 0 = 1"
  by (simp_all add: lineno_def colno_def str_def)

theorem format_json_response_shape_witness:
  "\<exists>r. format_json (json_loads sample_interpreter) (json_dumps sample_interpreter)
          \<lparr>text = str ''{invalid'', indent = Some 4\<rparr> = Inr r \<and>
        \<not> success r \<and> error r \<noteq> None \<and> formatted r = None"
proof -
  let ?data = "\<lparr>text = str ''{invalid'', indent = Some 4\<rparr>"
  obtain r where r: "format_json (json_loads sample_interpreter)
        (json_dumps sample_interpreter) ?data = Inr r"
    and f: "\<not> success r \<longrightarrow> error r \<noteq> None \<and> formatted r = None"
    using format_json_response_shape
      [of "json_loads sample_interpreter" "json_dumps sample_interpreter" ?data]
    by blast
  have "\<not> success r"
    using r format_json_decode_error [of "json_loads sample_interpreter" ?data, OF _]
      invalid_example
    by auto
  with r f show ?thesis by blast
qed















subsection \<open>The layout of the formatted text\<close>












end
